theory Spec2Isabelle
  imports Complex_Main
begin

section \<open>Python values used by \<open>src/app.py\<close>\<close>

text \<open>
  Python integers are \<open>int\<close>, Python strings are \<open>string\<close>. Exceptions are values of
  \<open>py_error\<close>; a function that can raise returns \<open>py_error + 'a\<close>, or the state it
  leaves together with the exception that escaped.

  Python floats are values of a type \<open>'f\<close> with the operations the program applies to
  them, collected in \<open>float_ops\<close>: the theorems hold for every such arithmetic, that of
  IEEE doubles with its rounding, its signed zeros, its infinities and NaN included.
  What a theorem needs of the arithmetic is a stated hypothesis.
\<close>

datatype py_error =
  ZeroDivisionError | OverflowError | ValueError | OSError | UnicodeDecodeError

definition then_do :: "py_error + 'a \<Rightarrow> ('a \<Rightarrow> py_error + 'b) \<Rightarrow> py_error + 'b" where
  "then_do r k = (case r of Inl e \<Rightarrow> Inl e | Inr v \<Rightarrow> k v)"

record 'f float_ops =
  lit :: "real \<Rightarrow> 'f"  \<comment> \<open>the float a numeric literal denotes\<close>
  of_int_f :: "int \<Rightarrow> py_error + 'f"  \<comment> \<open>an \<open>int\<close> operand of float arithmetic; too large: \<open>OverflowError\<close>\<close>
  sub :: "'f \<Rightarrow> 'f \<Rightarrow> 'f"
  mul :: "'f \<Rightarrow> 'f \<Rightarrow> 'f"
  quot :: "'f \<Rightarrow> 'f \<Rightarrow> 'f"  \<comment> \<open>\<open>a / b\<close> for \<open>b\<close> other than zero\<close>
  is_zero :: "'f \<Rightarrow> bool"
  lt :: "'f \<Rightarrow> 'f \<Rightarrow> bool"
  le :: "'f \<Rightarrow> 'f \<Rightarrow> bool"
  to_int :: "'f \<Rightarrow> py_error + int"  \<comment> \<open>\<open>int(x)\<close>; \<open>ValueError\<close> on NaN, \<open>OverflowError\<close> on an infinity\<close>
  fmt :: "nat \<Rightarrow> 'f \<Rightarrow> string"  \<comment> \<open>the format specification \<open>.df\<close>\<close>

definition py_truediv :: "'f float_ops \<Rightarrow> 'f \<Rightarrow> 'f \<Rightarrow> py_error + 'f" where
  "py_truediv ops a b = (if is_zero ops b then Inl ZeroDivisionError else Inr (quot ops a b))"

definition digit_char :: "nat \<Rightarrow> char" where
  "digit_char n = ''0123456789'' ! (n mod 10)"

fun show_nat :: "nat \<Rightarrow> string" where
  "show_nat n = (if n < 10 then [digit_char n] else show_nat (n div 10) @ [digit_char n])"

declare show_nat.simps [simp del]

definition show_int :: "int \<Rightarrow> string" where
  \<comment> \<open>\<open>str(i)\<close>, also what an f-string field \<open>{i}\<close> prints for an integer.\<close>
  "show_int i = (if i < 0 then ''-'' @ show_nat (nat (- i)) else show_nat (nat i))"

definition is_space :: "char \<Rightarrow> bool" where
  \<comment> \<open>The characters below code point 256 that \<open>str.strip()\<close> removes.\<close>
  "is_space c \<longleftrightarrow>
     c \<in> set [CHR 0x09, CHR 0x0A, CHR 0x0B, CHR 0x0C, CHR 0x0D, CHR 0x1C, CHR 0x1D,
              CHR 0x1E, CHR 0x1F, CHR 0x20, CHR 0x85, CHR 0xA0]"

definition strip :: "string \<Rightarrow> string" where
  "strip s = rev (dropWhile is_space (rev (dropWhile is_space s)))"

fun py_join :: "string \<Rightarrow> string list \<Rightarrow> string" where
  "py_join sep [] = []"
| "py_join sep [x] = x"
| "py_join sep (x # y # ys) = x @ sep @ py_join sep (y # ys)"

section \<open>Functional helpers\<close>

definition format_speed :: "'f float_ops \<Rightarrow> 'f \<Rightarrow> string" where
  "format_speed ops bytes_per_sec =
     (if lt ops bytes_per_sec (lit ops 1024) then fmt ops 0 bytes_per_sec @ '' B/s''
      else if lt ops bytes_per_sec (lit ops (1024 ^ 2)) then
        fmt ops 1 (quot ops bytes_per_sec (lit ops 1024)) @ '' KB/s''
      else fmt ops 1 (quot ops bytes_per_sec (lit ops (1024 ^ 2))) @ '' MB/s'')"

section \<open>The application object\<close>

text \<open>
  The fields of \<open>ADBTransferApp\<close> that the transfer code reads or writes. A widget is
  the value last given to its setter: the text of a label, the fraction and the text of
  the progress bar, an opacity, the sensitivity of the start button. \<open>toasts\<close> lists the
  messages handed to \<open>_show_toast\<close>, oldest first.
\<close>

record 'f app =
  total_bytes :: int
  last_fraction :: 'f
  last_time :: 'f
  path_entry :: string
  mode_pull :: bool
  start_btn_sensitive :: bool
  status_label :: string
  progress_fraction :: 'f
  progress_text :: string
  progress_opacity :: real
  speed_label :: string
  speed_opacity :: real
  toasts :: "string list"

text \<open>
  \<open>update_ui_progress\<close> returns the state it leaves and the exception that escaped it,
  if any. The second argument is the value \<open>time.time()\<close> returns in the call. The
  estimate can raise only before it has assigned anything; the conversion
  \<open>int(fraction * 100)\<close> comes after \<open>set_fraction\<close>.
\<close>

definition update_ui_progress ::
  "'f float_ops \<Rightarrow> 'f \<Rightarrow> 'f \<Rightarrow> 'f app \<Rightarrow> 'f app \<times> py_error option" where
  "update_ui_progress ops current_time fraction self =
     (case
        (if total_bytes self > 0 \<and> lt ops (lit ops 0) (last_time self) then
           let time_delta = sub ops current_time (last_time self) in
           if lt ops (lit ops (1 / 2)) time_delta then
             let fraction_delta = sub ops fraction (last_fraction self) in
             then_do
               (if le ops (lit ops 0) fraction_delta then
                  then_do (of_int_f ops (total_bytes self))
                    (\<lambda>total_f. let bytes_delta = mul ops fraction_delta total_f in
                       then_do (py_truediv ops bytes_delta time_delta)
                         (\<lambda>speed. Inr (self\<lparr>speed_label := format_speed ops speed\<rparr>)))
                else Inr self)
               (\<lambda>self. Inr (self\<lparr>last_time := current_time, last_fraction := fraction\<rparr>))
           else Inr self
         else Inr self)
      of Inl e \<Rightarrow> (self, Some e)
       | Inr self \<Rightarrow>
           let self = self\<lparr>progress_fraction := fraction\<rparr> in
           (case to_int ops (mul ops fraction (lit ops 100)) of
              Inl e \<Rightarrow> (self, Some e)
            | Inr percent \<Rightarrow> (self\<lparr>progress_text := show_int percent @ ''%''\<rparr>, None)))"

fun deliver ::
  "'f float_ops \<Rightarrow> ('f \<times> 'f) list \<Rightarrow> 'f app \<Rightarrow> 'f app \<times> py_error list" where
  \<comment> \<open>The main loop running the queued progress callbacks in order; each sample is the
      clock reading of its call and the fraction. An exception in a callback is reported
      and the loop goes on.\<close>
  "deliver ops [] self = (self, [])"
| "deliver ops ((current_time, fraction) # rest) self =
     (case update_ui_progress ops current_time fraction self of
        (self, raised) \<Rightarrow>
          (case deliver ops rest self of
             (self, errors) \<Rightarrow> (self, (case raised of None \<Rightarrow> [] | Some e \<Rightarrow> [e]) @ errors)))"

section \<open>The local file system and \<open>get_local_size\<close>\<close>

text \<open>
  What a path holds: a file whose \<open>stat\<close> gives a size or fails (\<open>None\<close>), a symbolic
  link, a directory with its entries in listing order, or a directory whose listing
  cannot be read. The file system maps a path to what it resolves to; the empty path
  resolves to nothing.
\<close>

datatype node = File "nat option" | Symlink | Dir "node list" | Unreadable

definition resolve :: "(string \<Rightarrow> node option) \<Rightarrow> string \<Rightarrow> node option" where
  "resolve fs path = (if path = [] then None else fs path)"

definition path_exists :: "(string \<Rightarrow> node option) \<Rightarrow> string \<Rightarrow> bool" where
  \<comment> \<open>\<open>os.path.exists\<close>; a link that resolves to a link is a dangling one.\<close>
  "path_exists fs path =
     (case resolve fs path of None \<Rightarrow> False | Some Symlink \<Rightarrow> False | Some _ \<Rightarrow> True)"

fun nondir :: "node \<Rightarrow> bool" where
  "nondir (File _) = True"
| "nondir Symlink = True"
| "nondir _ = False"

text \<open>
  \<open>os.walk(path)\<close> with its defaults: a directory that cannot be listed yields nothing,
  a listed directory yields its non-directory entries and is followed by the walks of its
  subdirectories; links are not followed. The result lists the \<open>filenames\<close> of every
  directory visited, in the order of the visits.
\<close>

fun walk :: "node \<Rightarrow> node list list" and walk_dirs :: "node list \<Rightarrow> node list list" where
  "walk (Dir entries) = filter nondir entries # walk_dirs entries"
| "walk (File _) = []"
| "walk Symlink = []"
| "walk Unreadable = []"
| "walk_dirs [] = []"
| "walk_dirs (e # es) = walk e @ walk_dirs es"

text \<open>
  The two nested loops of \<open>get_local_size\<close>. The running total is returned with the
  exception that stopped the loops, if any: \<open>os.path.getsize\<close> raises where \<open>stat\<close> fails.
\<close>

fun count_files :: "node list \<Rightarrow> int \<Rightarrow> int \<times> py_error option" where
  "count_files [] total_size = (total_size, None)"
| "count_files (Symlink # fs) total_size = count_files fs total_size"
| "count_files (File (Some n) # fs) total_size = count_files fs (total_size + int n)"
| "count_files (File None # fs) total_size = (total_size, Some OSError)"
| "count_files (_ # fs) total_size = count_files fs total_size"

fun walk_loop :: "node list list \<Rightarrow> int \<Rightarrow> int \<times> py_error option" where
  "walk_loop [] total_size = (total_size, None)"
| "walk_loop (filenames # rest) total_size =
     (case count_files filenames total_size of
        (t, None) \<Rightarrow> walk_loop rest t
      | (t, Some e) \<Rightarrow> (t, Some e))"

definition get_local_size :: "(string \<Rightarrow> node option) \<Rightarrow> string \<Rightarrow> int" where
  \<comment> \<open>Both the normal exit and the \<open>except\<close> clause fall through to \<open>return total_size\<close>.\<close>
  "get_local_size fs path =
     (case walk_loop (case resolve fs path of None \<Rightarrow> [] | Some tree \<Rightarrow> walk tree) 0 of
        (total_size, _) \<Rightarrow> total_size)"

text \<open>The size the interface promises: every regular file below a directory, links excluded.\<close>

fun spec_tree_size :: "node \<Rightarrow> nat" and spec_entries_size :: "node list \<Rightarrow> nat" where
  "spec_tree_size (Dir entries) = spec_entries_size entries"
| "spec_tree_size (File (Some n)) = n"
| "spec_tree_size (File None) = 0"
| "spec_tree_size Symlink = 0"
| "spec_tree_size Unreadable = 0"
| "spec_entries_size [] = 0"
| "spec_entries_size (e # es) = spec_tree_size e + spec_entries_size es"

fun stat_ok :: "node \<Rightarrow> bool" and stats_ok :: "node list \<Rightarrow> bool" where
  "stat_ok (Dir entries) = stats_ok entries"
| "stat_ok (File (Some n)) = True"
| "stat_ok (File None) = False"
| "stat_ok Symlink = True"
| "stat_ok Unreadable = True"
| "stats_ok [] = True"
| "stats_ok (e # es) = (stat_ok e \<and> stats_ok es)"

section \<open>The pipeline command\<close>

definition DEVICE_DIR :: string where "DEVICE_DIR = ''/sdcard/Transfer''"
definition REMOTE_BASE_DIR :: string where "REMOTE_BASE_DIR = ''/sdcard''"
definition REMOTE_TARGET_DIR_NAME :: string where "REMOTE_TARGET_DIR_NAME = ''Transfer''"

definition path_join :: "string \<Rightarrow> string \<Rightarrow> string" where
  \<comment> \<open>\<open>os.path.join\<close> of two components on POSIX.\<close>
  "path_join a b =
     (if b \<noteq> [] \<and> hd b = CHR ''/'' then b
      else if a = [] \<or> last a = CHR ''/'' then a @ b
      else a @ ''/'' @ b)"

definition pipeline_cmd :: "bool \<Rightarrow> string \<Rightarrow> int \<Rightarrow> string" where
  \<comment> \<open>The two f-strings assigned to \<open>cmd\<close> in \<open>_prepare_and_run\<close>.\<close>
  \<open>pipeline_cmd is_pull local_path size_bytes =
     (if is_pull then
        ''adb exec-out "cd '' @ REMOTE_BASE_DIR @ '' && tar -c -f - '' @ REMOTE_TARGET_DIR_NAME
          @ ''" | ''
        @ ''pv -n -s '' @ show_int size_bytes @ '' | ''
        @ ''tar -xf - -C "'' @ local_path @ ''"''
      else
        ''tar -cf - -C "'' @ local_path @ ''" . | ''
        @ ''pv -n -s '' @ show_int size_bytes @ '' | ''
        @ ''adb shell "tar -xf - -C '' @ DEVICE_DIR @ ''"'')\<close>

section \<open>The transfer workflow\<close>

text \<open>
  What the worker thread meets outside the program: the result of \<open>check_adb_device\<close>,
  the result of \<open>get_remote_size\<close> for a remote path (both functions catch every
  exception), the local file system, and whether \<open>os.makedirs\<close> succeeds on a path.
\<close>

record env =
  adb_device_present :: bool
  remote_du :: "string \<Rightarrow> int"
  local_fs :: "string \<Rightarrow> node option"
  makedirs_ok :: "string \<Rightarrow> bool"

text \<open>
  The trace of the worker thread, in program order: each external command it runs, each
  query of the local file system, each callback it queues with \<open>GLib.idle_add\<close>, and an
  exception that ends it.
\<close>

datatype effect =
    Run_adb_get_state
  | Run_adb_du string
  | Makedirs string
  | Path_exists string
  | Run_adb_mkdir string
  | Walk string
  | Idle_set_status string
  | Idle_transfer_finished bool string
  | Run_pipeline string
  | Thread_raised py_error

fun external_process :: "effect \<Rightarrow> bool" where
  "external_process Run_adb_get_state = True"
| "external_process (Run_adb_du _) = True"
| "external_process (Run_adb_mkdir _) = True"
| "external_process (Run_pipeline _) = True"
| "external_process _ = False"

definition show_toast :: "string \<Rightarrow> 'f app \<Rightarrow> 'f app" where
  "show_toast message self = self\<lparr>toasts := toasts self @ [message]\<rparr>"

definition on_transfer_finished ::
  "'f float_ops \<Rightarrow> bool \<Rightarrow> string \<Rightarrow> 'f app \<Rightarrow> 'f app" where
  "on_transfer_finished ops success error_msg self =
     (let self = self\<lparr>start_btn_sensitive := True, progress_opacity := 0,
                       progress_fraction := lit ops 0, speed_opacity := 0\<rparr>
      in if success then
           show_toast ''Success!'' (self\<lparr>status_label := ''Transfer Complete!''\<rparr>)
         else
           let self = self\<lparr>status_label := ''Transfer Failed''\<rparr>;
               short_err = (if length error_msg > 40 then take 40 error_msg @ ''...''
                            else error_msg);
               short_err = (if short_err = [] then ''Check terminal for details.''
                            else short_err)
           in show_toast (''Error: '' @ short_err) self)"

definition on_start ::
  "'f float_ops \<Rightarrow> 'f \<Rightarrow> 'f app \<Rightarrow> 'f app \<times> (bool \<times> string) option" where
  \<comment> \<open>The first argument is the clock reading. The second component is the thread
      started, with its arguments, if one is.\<close>
  "on_start ops current_time self =
     (let local_path = strip (path_entry self)
      in if local_path = [] then (show_toast ''Please select a local path.'' self, None)
         else
           let is_pull = mode_pull self
           in (self\<lparr>start_btn_sensitive := False, status_label := ''Initializing...'',
                     progress_opacity := 1, speed_opacity := 1,
                     speed_label := ''Calculating...'',
                     last_fraction := lit ops 0, last_time := current_time\<rparr>,
               Some (is_pull, local_path)))"

definition prepare_and_run ::
  "env \<Rightarrow> bool \<Rightarrow> string \<Rightarrow> 'f app \<Rightarrow> 'f app \<times> effect list" where
  "prepare_and_run world is_pull local_path self =
     (if \<not> adb_device_present world then
        (self, [Run_adb_get_state, Idle_set_status ''Device Error'',
                Idle_transfer_finished False ''ADB Device not connected or unauthorized''])
      else if is_pull then
        let remote_full_path = path_join REMOTE_BASE_DIR REMOTE_TARGET_DIR_NAME;
            size_bytes = remote_du world remote_full_path
        in if \<not> makedirs_ok world local_path then
             (self, [Run_adb_get_state, Run_adb_du remote_full_path, Makedirs local_path,
                     Thread_raised OSError])
           else
             (self\<lparr>total_bytes := size_bytes\<rparr>,
              [Run_adb_get_state, Run_adb_du remote_full_path, Makedirs local_path,
               Idle_set_status ''Transferring...'',
               Run_pipeline (pipeline_cmd is_pull local_path size_bytes)])
      else if \<not> path_exists (local_fs world) local_path then
        (self, [Run_adb_get_state, Path_exists local_path,
                Idle_transfer_finished False ''Local path does not exist''])
      else
        let size_bytes = get_local_size (local_fs world) local_path
        in (self\<lparr>total_bytes := size_bytes\<rparr>,
            [Run_adb_get_state, Path_exists local_path, Run_adb_mkdir DEVICE_DIR,
             Walk local_path, Idle_set_status ''Transferring...'',
             Run_pipeline (pipeline_cmd is_pull local_path size_bytes)]))"

fun run_idle :: "'f float_ops \<Rightarrow> effect \<Rightarrow> 'f app \<Rightarrow> 'f app" where
  "run_idle ops (Idle_set_status t) self = self\<lparr>status_label := t\<rparr>"
| "run_idle ops (Idle_transfer_finished success error_msg) self =
     on_transfer_finished ops success error_msg self"
| "run_idle ops _ self = self"

fun drain_idle :: "'f float_ops \<Rightarrow> effect list \<Rightarrow> 'f app \<Rightarrow> 'f app" where
  \<comment> \<open>The main loop running the callbacks the worker queued, in order.\<close>
  "drain_idle ops [] self = self"
| "drain_idle ops (e # es) self = drain_idle ops es (run_idle ops e self)"

definition start_transfer ::
  "'f float_ops \<Rightarrow> env \<Rightarrow> 'f \<Rightarrow> 'f app \<Rightarrow> 'f app \<times> effect list" where
  \<comment> \<open>A click on the start button, followed to the launch of the pipeline or to the
      failure that prevents it: \<open>on_start\<close>, then the thread it starts, then the
      callbacks that thread queued.\<close>
  "start_transfer ops world current_time self =
     (case on_start ops current_time self of
        (self, None) \<Rightarrow> (self, [])
      | (self, Some (is_pull, local_path)) \<Rightarrow>
          (case prepare_and_run world is_pull local_path self of
             (self, effects) \<Rightarrow> (drain_idle ops effects self, effects)))"

section \<open>The supervisor: \<open>run_adb_command_with_progress\<close>\<close>

text \<open>
  One iteration of the loop of \<open>read_stderr\<close> observes what \<open>readline\<close> does: it
  returns a string (the empty one at the end of the stream), and \<open>poll\<close> then has a
  value (\<open>None\<close> while the process runs); or it raises \<open>UnicodeDecodeError\<close>, the
  stream being opened in text mode, on bytes that do not decode. The run of a process is
  the list of these observations; a list that ends before the loop is left is a loop
  that has not returned, \<open>None\<close>. \<open>float\<close> is a parameter: it gives the number a
  string denotes, or \<open>None\<close> where it raises \<open>ValueError\<close>.
\<close>

datatype observation = Read string "int option" | Undecodable

datatype idle_call = Update_callback real | Finished_callback bool string

fun read_loop ::
  "(string \<Rightarrow> real option) \<Rightarrow> observation list \<Rightarrow> string list \<Rightarrow> idle_call list
     \<Rightarrow> (string list \<times> idle_call list \<times> (py_error + int)) option" where
  "read_loop float [] captured_errors queued = None"
| "read_loop float (Undecodable # rest) captured_errors queued =
     Some (captured_errors, queued, Inl UnicodeDecodeError)"
| "read_loop float (Read line polled # rest) captured_errors queued =
     (case (if line = [] then polled else None) of
        Some rc \<Rightarrow> Some (captured_errors, queued, Inr rc)
      | None \<Rightarrow>
          if line \<noteq> [] then
            let line_str = strip line
            in (case float line_str of
                  Some percent \<Rightarrow>
                    read_loop float rest captured_errors
                      (queued @ [Update_callback (percent / 100)])
                | None \<Rightarrow>
                    if line_str \<noteq> [] then
                      read_loop float rest (captured_errors @ [line_str]) queued
                    else read_loop float rest captured_errors queued)
          else read_loop float rest captured_errors queued)"

definition read_stderr ::
  "(string \<Rightarrow> real option) \<Rightarrow> observation list
     \<Rightarrow> (idle_call list \<times> py_error option) option" where
  \<comment> \<open>The calls the thread has queued when it ends, and the exception that ended it, if
      one did. After the loop \<open>poll\<close> returns the exit code again.\<close>
  "read_stderr float observations =
     (case read_loop float observations [] [] of
        None \<Rightarrow> None
      | Some (captured_errors, queued, Inl e) \<Rightarrow> Some (queued, Some e)
      | Some (captured_errors, queued, Inr rc) \<Rightarrow>
          let success = (rc = 0);
              error_msg = (if \<not> success then py_join [CHR 0x0A] captured_errors else [])
          in Some (queued @ [Finished_callback success error_msg], None))"

text \<open>
  The decimal literals among the strings \<open>float\<close> accepts (\<open>12\<close>, \<open>-3.5\<close>, \<open>.5\<close>, \<open>5.\<close>),
  with the number they denote; used to run the supervisor on concrete lines.
\<close>

definition is_digit :: "char \<Rightarrow> bool" where
  "is_digit c \<longleftrightarrow> c \<in> set ''0123456789''"

definition digit_value :: "char \<Rightarrow> nat" where
  "digit_value c = of_char c - 48"

definition digits_value :: "string \<Rightarrow> nat" where
  "digits_value ds = foldl (\<lambda>a c. 10 * a + digit_value c) 0 ds"

definition decimal_float :: "string \<Rightarrow> real option" where
  "decimal_float s =
     (let negative = (s \<noteq> [] \<and> hd s = CHR ''-'');
          body = (if s \<noteq> [] \<and> (hd s = CHR ''-'' \<or> hd s = CHR ''+'') then tl s else s);
          ip = takeWhile is_digit body;
          rest = dropWhile is_digit body;
          sign = (if negative then - 1 else 1)
      in case rest of
           [] \<Rightarrow> if ip = [] then None else Some (sign * real (digits_value ip))
         | c # fp \<Rightarrow>
             if c = CHR ''.'' \<and> list_all is_digit fp \<and> (ip \<noteq> [] \<or> fp \<noteq> []) then
               Some (sign * (real (digits_value ip) + real (digits_value fp) / 10 ^ length fp))
             else None)"

section \<open>Reference definitions and sample values\<close>

text \<open>
  What the theorems ask of the float arithmetic; both hold of IEEE doubles. A
  difference is negative when its first operand is below the second. A number above
  one half is not zero, a product of a number that is at least zero and a positive
  integer is not below zero, and neither is the quotient of a number that is not below
  zero by a number above one half; a conversion between \<open>int\<close> and \<open>float\<close> raises no
  \<open>ZeroDivisionError\<close>.
\<close>

definition sub_sign :: "'f float_ops \<Rightarrow> bool" where
  "sub_sign ops \<longleftrightarrow> (\<forall>a b. lt ops a b \<longrightarrow> \<not> le ops (lit ops 0) (sub ops a b))"

definition sign_rules :: "'f float_ops \<Rightarrow> bool" where
  "sign_rules ops \<longleftrightarrow>
     (\<forall>t. lt ops (lit ops (1 / 2)) t \<longrightarrow> \<not> is_zero ops t) \<and>
     (\<forall>a n b. le ops (lit ops 0) a \<and> 0 < n \<and> of_int_f ops n = Inr b \<longrightarrow>
        \<not> lt ops (mul ops a b) (lit ops 0)) \<and>
     (\<forall>b t. \<not> lt ops b (lit ops 0) \<and> lt ops (lit ops (1 / 2)) t \<longrightarrow>
        \<not> lt ops (quot ops b t) (lit ops 0)) \<and>
     (\<forall>a. to_int ops a \<noteq> Inl ZeroDivisionError) \<and>
     (\<forall>n. of_int_f ops n \<noteq> Inl ZeroDivisionError)"

text \<open>
  Exact arithmetic on the reals extended by the infinities and NaN: what doubles compute
  wherever the exact result is a double. It runs the program on concrete samples.
\<close>

datatype xfloat = Fin real | PInf | NInf | NaN

fun x_sub :: "xfloat \<Rightarrow> xfloat \<Rightarrow> xfloat" where
  "x_sub (Fin a) (Fin b) = Fin (a - b)"
| "x_sub NaN _ = NaN"
| "x_sub _ NaN = NaN"
| "x_sub PInf PInf = NaN"
| "x_sub NInf NInf = NaN"
| "x_sub PInf _ = PInf"
| "x_sub NInf _ = NInf"
| "x_sub _ PInf = NInf"
| "x_sub _ NInf = PInf"

fun x_sgn :: "xfloat \<Rightarrow> real" where
  "x_sgn (Fin a) = sgn a"
| "x_sgn PInf = 1"
| "x_sgn NInf = - 1"
| "x_sgn NaN = 0"

definition x_inf :: "real \<Rightarrow> xfloat" where
  "x_inf s = (if s = 0 then NaN else if 0 < s then PInf else NInf)"

fun x_mul :: "xfloat \<Rightarrow> xfloat \<Rightarrow> xfloat" where
  "x_mul (Fin a) (Fin b) = Fin (a * b)"
| "x_mul NaN _ = NaN"
| "x_mul _ NaN = NaN"
| "x_mul a b = x_inf (x_sgn a * x_sgn b)"

fun x_quot :: "xfloat \<Rightarrow> xfloat \<Rightarrow> xfloat" where
  "x_quot (Fin a) (Fin b) = Fin (a / b)"
| "x_quot NaN _ = NaN"
| "x_quot _ NaN = NaN"
| "x_quot (Fin a) _ = Fin 0"
| "x_quot a (Fin b) = x_inf (x_sgn a * (if 0 \<le> b then 1 else - 1))"
| "x_quot _ _ = NaN"

fun x_lt :: "xfloat \<Rightarrow> xfloat \<Rightarrow> bool" where
  "x_lt (Fin a) (Fin b) = (a < b)"
| "x_lt NaN _ = False"
| "x_lt _ NaN = False"
| "x_lt NInf b = (b \<noteq> NInf)"
| "x_lt a PInf = (a \<noteq> PInf)"
| "x_lt _ _ = False"

fun x_le :: "xfloat \<Rightarrow> xfloat \<Rightarrow> bool" where
  "x_le (Fin a) (Fin b) = (a \<le> b)"
| "x_le NaN _ = False"
| "x_le _ NaN = False"
| "x_le NInf _ = True"
| "x_le _ PInf = True"
| "x_le _ _ = False"

fun x_to_int :: "xfloat \<Rightarrow> py_error + int" where
  "x_to_int (Fin a) = Inr (if 0 \<le> a then \<lfloor>a\<rfloor> else \<lceil>a\<rceil>)"
| "x_to_int NaN = Inl ValueError"
| "x_to_int _ = Inl OverflowError"

definition round_half_even :: "real \<Rightarrow> int" where
  "round_half_even x =
     (let f = \<lfloor>x\<rfloor>; d = x - of_int f
      in if d < 1 / 2 then f else if 1 / 2 < d then f + 1 else if even f then f else f + 1)"

definition zero_pad :: "nat \<Rightarrow> string \<Rightarrow> string" where
  "zero_pad w s = replicate (w - length s) (CHR ''0'') @ s"

definition fmt_fixed :: "nat \<Rightarrow> real \<Rightarrow> string" where
  "fmt_fixed d x =
     (let r = nat (round_half_even (\<bar>x\<bar> * 10 ^ d));
          ip = r div 10 ^ d;
          fp = r mod 10 ^ d
      in (if x < 0 then ''-'' else '''') @ show_nat ip
         @ (if d = 0 then '''' else ''.'' @ zero_pad d (show_nat fp)))"

fun x_fmt :: "nat \<Rightarrow> xfloat \<Rightarrow> string" where
  "x_fmt d (Fin a) = fmt_fixed d a"
| "x_fmt d PInf = ''inf''"
| "x_fmt d NInf = ''-inf''"
| "x_fmt d NaN = ''nan''"

definition x_ops :: "xfloat float_ops" where
  "x_ops = \<lparr>lit = Fin,
     of_int_f = (\<lambda>n. if \<bar>n\<bar> < 2 ^ 1024 then Inr (Fin (of_int n)) else Inl OverflowError),
     sub = x_sub, mul = x_mul, quot = x_quot, is_zero = (\<lambda>a. a = Fin 0),
     lt = x_lt, le = x_le, to_int = x_to_int, fmt = x_fmt\<rparr>"

text \<open>
  A read that decoded, as an observation; and the end of a run as the loop of
  \<open>read_stderr\<close> sees it: an empty read while \<open>poll\<close> reports an exit code.
\<close>

definition decoded :: "string \<times> int option \<Rightarrow> observation" where
  "decoded obs = Read (fst obs) (snd obs)"

definition terminal :: "string \<times> int option \<Rightarrow> bool" where
  "terminal obs \<longleftrightarrow> fst obs = [] \<and> snd obs \<noteq> None"

text \<open>
  The lines of a run after trimming, the progress calls they stand for and the
  diagnostic log they leave, written as list comprehensions over the lines.
\<close>

definition trimmed_lines :: "(string \<times> int option) list \<Rightarrow> string list" where
  "trimmed_lines observations =
     map strip (filter (\<lambda>line. line \<noteq> []) (map fst observations))"

definition progress_calls :: "(string \<Rightarrow> real option) \<Rightarrow> string list \<Rightarrow> idle_call list" where
  "progress_calls float ts =
     map (\<lambda>percent. Update_callback (percent / 100)) (List.map_filter float ts)"

definition diagnostic_log :: "(string \<Rightarrow> real option) \<Rightarrow> string list \<Rightarrow> string list" where
  "diagnostic_log float ts = filter (\<lambda>t. float t = None \<and> t \<noteq> []) ts"

fun is_finished :: "idle_call \<Rightarrow> bool" where
  "is_finished (Finished_callback _ _) = True"
| "is_finished (Update_callback _) = False"

definition idle_app :: "xfloat app" where
  \<comment> \<open>The application after \<open>on_activate\<close>, with an empty path entry.\<close>
  "idle_app = \<lparr>total_bytes = 0, last_fraction = Fin 0, last_time = Fin 0,
     path_entry = [], mode_pull = True, start_btn_sensitive = True,
     status_label = ''Ready'', progress_fraction = Fin 0, progress_text = ''0%'',
     progress_opacity = 0, speed_label = [], speed_opacity = 0, toasts = []\<rparr>"

definition transfer_app :: "xfloat app" where
  \<comment> \<open>Half way through a transfer of 1000 bytes, last sampled at time 10.\<close>
  "transfer_app = idle_app\<lparr>total_bytes := 1000, last_fraction := Fin (1 / 2),
     last_time := Fin 10, path_entry := ''/tmp/out'', start_btn_sensitive := False,
     status_label := ''Transferring...'', progress_fraction := Fin (1 / 2),
     progress_text := ''50%'', progress_opacity := 1, speed_label := ''Calculating...'',
     speed_opacity := 1\<rparr>"

definition zero_app :: "xfloat app" where
  \<comment> \<open>A transfer whose size query returned 0, started at time 10.\<close>
  "zero_app = transfer_app\<lparr>total_bytes := 0, last_fraction := Fin 0,
     progress_fraction := Fin 0, progress_text := ''0%''\<rparr>"

definition sample_entries :: "node list" where
  "sample_entries = [File (Some 10), Symlink, Dir [File (Some 5), Symlink], Unreadable]"

definition sample_world :: env where
  "sample_world = \<lparr>adb_device_present = True, remote_du = (\<lambda>p. 1000),
     local_fs = (\<lambda>p. if p = ''/data'' then Some (Dir sample_entries) else None),
     makedirs_ok = (\<lambda>p. True)\<rparr>"


definition failing_lines :: "(string \<times> int option) list" where
  "failing_lines = [(''permission denied'' @ [CHR 0x0A], None), ([], None),
                    (''abort'' @ [CHR 0x0A], None)]"

definition zero_world :: env where
  "zero_world = sample_world\<lparr>remote_du := (\<lambda>p. 0)\<rparr>"

definition pull_app :: "xfloat app" where
  "pull_app = idle_app\<lparr>path_entry := ''/tmp/out''\<rparr>"

definition push_app :: "xfloat app" where
  "push_app = idle_app\<lparr>path_entry := ''/nope'', mode_pull := False\<rparr>"

definition data_push_app :: "xfloat app" where
  "data_push_app = push_app\<lparr>path_entry := ''/data''\<rparr>"

section \<open>Facts about the helpers\<close>

lemma x_ops_simps [simp]:
  "lit x_ops = Fin" "sub x_ops = x_sub" "mul x_ops = x_mul" "quot x_ops = x_quot"
  "is_zero x_ops a = (a = Fin 0)" "lt x_ops = x_lt" "le x_ops = x_le"
  "to_int x_ops = x_to_int" "fmt x_ops = x_fmt"
  "of_int_f x_ops n = (if \<bar>n\<bar> < 2 ^ 1024 then Inr (Fin (of_int n)) else Inl OverflowError)"
  by (simp_all add: x_ops_def)

lemma x_sub_sign: "sub_sign x_ops"
proof -
  have "\<not> x_le (Fin 0) (x_sub a b)" if "x_lt a b" for a b
    using that by (cases a; cases b) simp_all
  then show ?thesis by (simp add: sub_sign_def)
qed

lemma x_sign_rules: "sign_rules x_ops"
proof -
  have nz: "a \<noteq> Fin 0" if "x_lt (Fin (1 / 2)) a" for a
    using that by (cases a) auto
  have m: "\<not> x_lt (x_mul a (Fin (of_int n))) (Fin 0)" if "x_le (Fin 0) a" "0 < n" for a n
    using that by (cases a) (simp_all add: x_inf_def not_less)
  have q: "\<not> x_lt (x_quot b t) (Fin 0)" if "\<not> x_lt b (Fin 0)" "x_lt (Fin (1 / 2)) t" for b t
    using that by (cases b; cases t) (auto simp add: x_inf_def field_simps)
  have c: "x_to_int a \<noteq> Inl ZeroDivisionError" for a
    by (cases a) simp_all
  show ?thesis
    unfolding sign_rules_def using nz m q c by (auto split: if_splits)
qed



lemma strip_lines:
  "strip (''0.0'' @ [CHR 0x0A]) = ''0.0''"
  "strip (''12.5'' @ [CHR 0x0A]) = ''12.5''"
  "strip (''some error text'' @ [CHR 0x0A]) = ''some error text''"
  "strip (''100.0'' @ [CHR 0x0A]) = ''100.0''"
  "strip (''permission denied'' @ [CHR 0x0A]) = ''permission denied''"
  "strip (''abort'' @ [CHR 0x0A]) = ''abort''"
  "strip (''150'' @ [CHR 0x0A]) = ''150''"
  "strip ''/nope'' = ''/nope''"
  "strip ''/data'' = ''/data''"
  "strip ''/tmp/out'' = ''/tmp/out''"
  by (simp_all add: strip_def is_space_def)

lemma decimal_float_lines:
  "decimal_float ''0.0'' = Some 0"
  "decimal_float ''12.5'' = Some (25 / 2)"
  "decimal_float ''100.0'' = Some 100"
  "decimal_float ''150'' = Some 150"
  "decimal_float ''some error text'' = None"
  "decimal_float ''permission denied'' = None"
  "decimal_float ''abort'' = None"
  by (simp_all add: decimal_float_def is_digit_def digits_value_def digit_value_def Let_def)


lemma trimmed_failing_lines:
  "trimmed_lines failing_lines = [''permission denied'', ''abort'']"
  by (simp add: trimmed_lines_def failing_lines_def strip_lines del: append.simps)

section \<open>The rate estimator: \<open>update_ui_progress\<close>\<close>

text \<open>
  Claim C1, as stated, fails twice. A sample below the recorded fraction that arrives
  more than half a second after the last one, in a transfer of known size, replaces the
  baseline: the assignments to \<open>last_time\<close> and \<open>last_fraction\<close> stand outside the test
  \<open>fraction_delta >= 0\<close>; here the baseline (1/2, 10) becomes (1/4, 11). And the sample
  minus infinity, which \<open>float\<close> accepts from the stream, moves the baseline and then
  raises \<open>OverflowError\<close> in \<open>int(fraction * 100)\<close>.
\<close>

theorem regression_moves_baseline:
  "x_lt (Fin (1 / 4)) (last_fraction transfer_app) \<and>
   update_ui_progress x_ops (Fin 11) (Fin (1 / 4)) transfer_app =
     (transfer_app\<lparr>last_time := Fin 11, last_fraction := Fin (1 / 4),
        progress_fraction := Fin (1 / 4), progress_text := ''25%''\<rparr>, None) \<and>
   x_lt NInf (last_fraction transfer_app) \<and>
   update_ui_progress x_ops (Fin 11) NInf transfer_app =
     (transfer_app\<lparr>last_time := Fin 11, last_fraction := NInf,
        progress_fraction := NInf\<rparr>, Some OverflowError)"
  by (simp add: update_ui_progress_def then_do_def transfer_app_def idle_app_def show_int_def
      show_nat.simps digit_char_def x_inf_def)

text \<open>
  Claim C1, amended: for every call with a fraction strictly less than the last recorded
  fraction, no speed value is produced (the speed text is left as it was); the stored
  baseline is left unchanged when the total size is not positive, no baseline timestamp
  is set or the elapsed time is not above 0.5 s, and is replaced by the sample and the
  current time otherwise; and the call raises exactly when the conversion
  \<open>int(fraction * 100)\<close> for the percent text does (a sample that is not finite), after
  the baseline has been settled.
\<close>

theorem regression_sample:
  assumes "sub_sign ops" and "lt ops fraction (last_fraction self)"
  shows "\<exists>self' raised. update_ui_progress ops now fraction self = (self', raised) \<and>
           speed_label self' = speed_label self \<and>
           (if total_bytes self > 0 \<and> lt ops (lit ops 0) (last_time self) \<and>
               lt ops (lit ops (1 / 2)) (sub ops now (last_time self))
            then last_fraction self' = fraction \<and> last_time self' = now
            else last_fraction self' = last_fraction self \<and> last_time self' = last_time self) \<and>
           raised = (case to_int ops (mul ops fraction (lit ops 100)) of
                       Inl e \<Rightarrow> Some e | Inr percent \<Rightarrow> None)"
proof -
  have neg: "\<not> le ops (lit ops 0) (sub ops fraction (last_fraction self))"
    using assms by (simp add: sub_sign_def)
  show ?thesis
    using neg by (auto simp add: update_ui_progress_def then_do_def Let_def split: sum.splits)
qed

theorem regression_sample_witness:
  "sub_sign x_ops \<and> lt x_ops (Fin (1 / 4)) (last_fraction transfer_app) \<and>
   (\<exists>self' raised. update_ui_progress x_ops (Fin 11) (Fin (1 / 4)) transfer_app = (self', raised) \<and>
      speed_label self' = speed_label transfer_app \<and>
      last_fraction self' = Fin (1 / 4) \<and> last_time self' = Fin 11 \<and> raised = None)"
proof -
  have h: "lt x_ops (Fin (1 / 4)) (last_fraction transfer_app)"
    by (simp add: transfer_app_def idle_app_def)
  show ?thesis
    using h x_sub_sign regression_sample [OF x_sub_sign h, of "Fin 11"]
    by (simp add: transfer_app_def idle_app_def)
qed

lemma update_frame:
  assumes "total_bytes self = 0 \<or> \<not> lt ops (lit ops 0) (last_time self)"
  shows "update_ui_progress ops now fraction self =
           (case to_int ops (mul ops fraction (lit ops 100)) of
              Inl e \<Rightarrow> (self\<lparr>progress_fraction := fraction\<rparr>, Some e)
            | Inr percent \<Rightarrow>
                (self\<lparr>progress_fraction := fraction,
                      progress_text := show_int percent @ ''%''\<rparr>, None))"
  using assms by (auto simp add: update_ui_progress_def Let_def split: sum.splits)

lemma update_speed:
  assumes "sign_rules ops"
  shows "snd (update_ui_progress ops now fraction self) \<noteq> Some ZeroDivisionError \<and>
         total_bytes (fst (update_ui_progress ops now fraction self)) = total_bytes self \<and>
         (speed_label (fst (update_ui_progress ops now fraction self)) = speed_label self \<or>
          (\<exists>v. \<not> lt ops v (lit ops 0) \<and>
             speed_label (fst (update_ui_progress ops now fraction self)) = format_speed ops v))"
proof -
  let ?td = "sub ops now (last_time self)"
  let ?fd = "sub ops fraction (last_fraction self)"
  have conv: "to_int ops a \<noteq> Inl ZeroDivisionError" for a
    using assms by (simp add: sign_rules_def)
  have conv': "of_int_f ops n \<noteq> Inl ZeroDivisionError" for n
    using assms by (simp add: sign_rules_def)
  show ?thesis
  proof (cases "total_bytes self > 0 \<and> lt ops (lit ops 0) (last_time self) \<and>
                lt ops (lit ops (1 / 2)) ?td \<and> le ops (lit ops 0) ?fd")
    case False
    then show ?thesis
      using conv [of "mul ops fraction (lit ops 100)"]
      by (auto simp add: update_ui_progress_def then_do_def Let_def split: sum.splits)
  next
    case True
    show ?thesis
    proof (cases "of_int_f ops (total_bytes self)")
      case (Inl e)
      then show ?thesis
        using True conv' [of "total_bytes self"]
        by (auto simp add: update_ui_progress_def then_do_def Let_def)
    next
      case (Inr total_f)
      let ?v = "quot ops (mul ops ?fd total_f) ?td"
      have nz: "\<not> is_zero ops ?td" using assms True by (simp add: sign_rules_def)
      have "\<not> lt ops (mul ops ?fd total_f) (lit ops 0)"
        using assms True Inr unfolding sign_rules_def by blast
      then have nonneg: "\<not> lt ops ?v (lit ops 0)"
        using assms True unfolding sign_rules_def by blast
      have "speed_label (fst (update_ui_progress ops now fraction self)) = format_speed ops ?v"
        using True Inr nz
        by (auto simp add: update_ui_progress_def then_do_def py_truediv_def Let_def
            split: sum.splits)
      moreover have "snd (update_ui_progress ops now fraction self) \<noteq> Some ZeroDivisionError"
        using True Inr nz conv [of "mul ops fraction (lit ops 100)"]
        by (auto simp add: update_ui_progress_def then_do_def py_truediv_def Let_def
            split: sum.splits)
      moreover have "total_bytes (fst (update_ui_progress ops now fraction self)) = total_bytes self"
        using True Inr nz
        by (auto simp add: update_ui_progress_def then_do_def py_truediv_def Let_def
            split: sum.splits)
      ultimately show ?thesis using nonneg by blast
    qed
  qed
qed

lemma deliver_facts:
  assumes "sign_rules ops"
  shows "ZeroDivisionError \<notin> set (snd (deliver ops samples self)) \<and>
         (total_bytes self = 0 \<longrightarrow>
            speed_label (fst (deliver ops samples self)) = speed_label self)"
proof (induction samples arbitrary: self)
  case Nil
  show ?case by simp
next
  case (Cons sample samples)
  obtain now fraction where sm: "sample = (now, fraction)" by (cases sample)
  obtain s1 raised where step: "update_ui_progress ops now fraction self = (s1, raised)"
    by (cases "update_ui_progress ops now fraction self")
  obtain s2 errors where rest: "deliver ops samples s1 = (s2, errors)"
    by (cases "deliver ops samples s1")
  have r: "raised \<noteq> Some ZeroDivisionError" and t: "total_bytes s1 = total_bytes self"
    using update_speed [OF assms, of now fraction self] by (simp_all add: step)
  have l: "total_bytes self = 0 \<longrightarrow> speed_label s1 = speed_label self"
    using update_frame [of self ops now fraction]
    by (auto simp add: step split: sum.splits)
  show ?case
    using Cons.IH [of s1] r t l by (auto simp add: sm step rest split: option.splits)
qed

lemma start_transfer_launch:
  assumes "Run_pipeline c \<in> set (snd (start_transfer ops world now self))"
  shows "speed_label (fst (start_transfer ops world now self)) = ''Calculating...''"
  using assms
  by (auto simp add: on_start_def start_transfer_def prepare_and_run_def Let_def
      split: if_splits)

text \<open>
  Claim C4: when the total size is 0, no progress update divides or produces a speed
  value: any sequence of updates leaves the speed text as it was, which in a transfer
  that has reached the launch of the pipeline is the placeholder \<open>Calculating...\<close> and
  not a number. For every state and every sequence of samples no update raises
  \<open>ZeroDivisionError\<close>, and the speed text an update leaves is either the previous one or
  the formatting of a speed that is not below zero.
\<close>

theorem zero_total_no_speed:
  assumes "sign_rules ops"
  shows "(total_bytes self = 0 \<longrightarrow>
            speed_label (fst (deliver ops samples self)) = speed_label self) \<and>
         ((\<exists>c. Run_pipeline c \<in> set (snd (start_transfer ops world t0 self))) \<and>
          total_bytes (fst (start_transfer ops world t0 self)) = 0 \<longrightarrow>
            speed_label (fst (deliver ops samples (fst (start_transfer ops world t0 self))))
              = ''Calculating...'') \<and>
         ZeroDivisionError \<notin> set (snd (deliver ops samples self)) \<and>
         (speed_label (fst (update_ui_progress ops now fraction self)) = speed_label self \<or>
          (\<exists>v. \<not> lt ops v (lit ops 0) \<and>
             speed_label (fst (update_ui_progress ops now fraction self))
               = format_speed ops v))"
proof (intro conjI impI)
  assume "total_bytes self = 0"
  then show "speed_label (fst (deliver ops samples self)) = speed_label self"
    using deliver_facts [OF assms, of samples self] by simp
next
  let ?s = "fst (start_transfer ops world t0 self)"
  assume h: "(\<exists>c. Run_pipeline c \<in> set (snd (start_transfer ops world t0 self))) \<and>
             total_bytes ?s = 0"
  then obtain c where "Run_pipeline c \<in> set (snd (start_transfer ops world t0 self))"
    by blast
  then have "speed_label ?s = ''Calculating...''" by (rule start_transfer_launch)
  moreover have "speed_label (fst (deliver ops samples ?s)) = speed_label ?s"
    using h deliver_facts [OF assms, of samples ?s] by simp
  ultimately show "speed_label (fst (deliver ops samples ?s)) = ''Calculating...''"
    by simp
next
  show "ZeroDivisionError \<notin> set (snd (deliver ops samples self))"
    using deliver_facts [OF assms, of samples self] by simp
next
  show "speed_label (fst (update_ui_progress ops now fraction self)) = speed_label self \<or>
      (\<exists>v. \<not> lt ops v (lit ops 0) \<and>
         speed_label (fst (update_ui_progress ops now fraction self)) = format_speed ops v)"
    using update_speed [OF assms, of now fraction self] by simp
qed

theorem zero_total_no_speed_witness:
  "sign_rules x_ops \<and> total_bytes zero_app = 0 \<and>
   (\<exists>c. Run_pipeline c \<in> set (snd (start_transfer x_ops zero_world (Fin 10) pull_app))) \<and>
   total_bytes (fst (start_transfer x_ops zero_world (Fin 10) pull_app)) = 0 \<and>
   speed_label (fst (deliver x_ops [(Fin 11, Fin (1 / 2)), (Fin 12, Fin 1)] zero_app))
     = ''Calculating...'' \<and>
   speed_label (fst (deliver x_ops [(Fin 11, Fin (1 / 2)), (Fin 12, Fin 1)]
     (fst (start_transfer x_ops zero_world (Fin 10) pull_app)))) = ''Calculating...''"
proof -
  have h1: "total_bytes zero_app = 0"
    by (simp add: zero_app_def transfer_app_def idle_app_def)
  have run: "start_transfer x_ops zero_world (Fin 10) pull_app =
      (pull_app\<lparr>start_btn_sensitive := False, status_label := ''Transferring...'',
         progress_opacity := 1, speed_opacity := 1, speed_label := ''Calculating...'',
         last_fraction := Fin 0, last_time := Fin 10, total_bytes := 0\<rparr>,
       [Run_adb_get_state, Run_adb_du ''/sdcard/Transfer'', Makedirs ''/tmp/out'',
        Idle_set_status ''Transferring...'',
        Run_pipeline (pipeline_cmd True ''/tmp/out'' 0)])"
    by (simp add: start_transfer_def on_start_def prepare_and_run_def pull_app_def idle_app_def
        zero_world_def sample_world_def strip_lines path_join_def REMOTE_BASE_DIR_def
        REMOTE_TARGET_DIR_NAME_def Let_def)
  have h2: "(\<exists>c. Run_pipeline c \<in> set (snd (start_transfer x_ops zero_world (Fin 10) pull_app)))
            \<and> total_bytes (fst (start_transfer x_ops zero_world (Fin 10) pull_app)) = 0"
    by (simp add: run)
  have l: "speed_label zero_app = ''Calculating...''"
    by (simp add: zero_app_def transfer_app_def idle_app_def)
  show ?thesis
    using h1 h2 l x_sign_rules
      zero_total_no_speed [OF x_sign_rules, of zero_app
        "[(Fin 11, Fin (1 / 2)), (Fin 12, Fin 1)]" zero_world "Fin 10" "Fin 11" "Fin 0"]
      zero_total_no_speed [OF x_sign_rules, of pull_app
        "[(Fin 11, Fin (1 / 2)), (Fin 12, Fin 1)]" zero_world "Fin 10" "Fin 11" "Fin 0"]
    by simp
qed




text \<open>
  Claim C10: a progress callback delivered while the total size is 0, or before a
  baseline timestamp is set, changes only the fraction and the percent text of the
  progress bar: the state it leaves is the old one with the fraction set and, where the
  conversion \<open>int(fraction * 100)\<close> returns, the percent text set. The baseline (last
  fraction, last timestamp), the speed text and every other field keep their values.
\<close>

theorem update_without_baseline:
  assumes "total_bytes self = 0 \<or> \<not> lt ops (lit ops 0) (last_time self)"
  shows "update_ui_progress ops now fraction self =
           (case to_int ops (mul ops fraction (lit ops 100)) of
              Inl e \<Rightarrow> (self\<lparr>progress_fraction := fraction\<rparr>, Some e)
            | Inr percent \<Rightarrow>
                (self\<lparr>progress_fraction := fraction,
                      progress_text := show_int percent @ ''%''\<rparr>, None))"
  using assms by (auto simp add: update_ui_progress_def Let_def split: sum.splits)

theorem update_without_baseline_witness:
  "total_bytes zero_app = 0 \<and>
   update_ui_progress x_ops (Fin 11) (Fin (1 / 2)) zero_app =
     (zero_app\<lparr>progress_fraction := Fin (1 / 2), progress_text := ''50%''\<rparr>, None) \<and>
   update_ui_progress x_ops (Fin 11) NaN zero_app =
     (zero_app\<lparr>progress_fraction := NaN\<rparr>, Some ValueError)"
proof -
  have h: "total_bytes zero_app = 0"
    by (simp add: zero_app_def transfer_app_def idle_app_def)
  then have h': "total_bytes zero_app = 0 \<or> \<not> lt x_ops (lit x_ops 0) (last_time zero_app)"
    by simp
  show ?thesis
    using h update_without_baseline [OF h', of "Fin 11" "Fin (1 / 2)"]
      update_without_baseline [OF h', of "Fin 11" NaN]
    by (simp add: show_int_def show_nat.simps digit_char_def)
qed

section \<open>The supervisor\<close>

lemma read_loop_prefix:
  "\<forall>obs\<in>set before. \<not> terminal obs \<Longrightarrow>
   read_loop float (map decoded before @ rest) captured queued =
   read_loop float rest (captured @ diagnostic_log float (trimmed_lines before))
     (queued @ progress_calls float (trimmed_lines before))"
proof (induction before arbitrary: captured queued)
  case Nil
  show ?case by (simp add: trimmed_lines_def diagnostic_log_def progress_calls_def)
next
  case (Cons obs before)
  obtain line polled where obs: "obs = (line, polled)" by (cases obs)
  from Cons.prems have nt: "\<not> terminal (line, polled)"
    and rest: "\<forall>obs\<in>set before. \<not> terminal obs"
    by (simp_all add: obs)
  show ?case
  proof (cases "line = []")
    case True
    with nt have "polled = None" by (simp add: terminal_def)
    with True show ?thesis
      using Cons.IH [OF rest] by (simp add: obs trimmed_lines_def decoded_def)
  next
    case False
    then show ?thesis
      using Cons.IH [OF rest]
      by (simp add: obs trimmed_lines_def diagnostic_log_def progress_calls_def Let_def
          decoded_def split: option.splits)
  qed
qed

lemma read_loop_complete:
  assumes "\<forall>obs\<in>set before. \<not> terminal obs"
  shows "read_loop float (map decoded before @ Read [] (Some rc) # after) [] [] =
         Some (diagnostic_log float (trimmed_lines before),
               progress_calls float (trimmed_lines before), Inr rc)"
  by (simp add: read_loop_prefix [OF assms])





text \<open>
  Where every read decodes, a completed run (the loop observes the end of the stream
  with the process exited, exit code \<open>rc\<close>) ends the thread without an exception, and
  what it queued is the progress calls followed by exactly one completion call, the
  last of all, whose success flag is true iff \<open>rc = 0\<close> and whose text is the diagnostic
  log joined by newlines when the run failed and the empty string when it succeeded.
\<close>

lemma read_stderr_decoded:
  assumes "\<forall>obs\<in>set before. \<not> terminal obs"
  shows "read_stderr float (map decoded before @ Read [] (Some rc) # after) =
           Some (progress_calls float (trimmed_lines before) @
               [Finished_callback (rc = 0)
                  (if rc = 0 then []
                   else py_join [CHR 0x0A] (diagnostic_log float (trimmed_lines before)))],
             None) \<and>
         filter is_finished (progress_calls float (trimmed_lines before)) = []"
proof -
  have "filter is_finished (progress_calls float (trimmed_lines before)) = []"
    by (simp add: progress_calls_def filter_map comp_def)
  then show ?thesis
    by (simp add: read_stderr_def read_loop_complete [OF assms])
qed

lemma read_stderr_failing_lines:
  "read_stderr decimal_float (map decoded failing_lines @ [Read [] (Some 1)]) =
     Some ([Finished_callback False (''permission denied'' @ [CHR 0x0A] @ ''abort'')], None)"
proof -
  have h: "\<forall>obs\<in>set failing_lines. \<not> terminal obs"
    by (simp add: failing_lines_def terminal_def)
  show ?thesis
    using read_stderr_decoded [OF h, of decimal_float 1 "[]"]
    by (simp add: trimmed_failing_lines diagnostic_log_def progress_calls_def
        decimal_float_lines)
qed

text \<open>
  Claim C3 holds of the runs whose diagnostic stream decodes, and the code breaks it on
  the others: \<open>readline\<close> stands outside the \<open>try\<close>, which catches \<open>ValueError\<close> only, so a
  line that does not decode ends the thread with \<open>UnicodeDecodeError\<close>. Here the process
  prints a progress line and a line that does not decode, then exits with code 0: one
  progress call is queued and no completion call ever is.
\<close>

theorem undecodable_line_no_outcome:
  "read_stderr decimal_float
     [Read (''0.0'' @ [CHR 0x0A]) None, Undecodable, Read [] (Some 0)] =
     Some ([Update_callback 0], Some UnicodeDecodeError)"
  by (simp add: read_stderr_def strip_lines decimal_float_lines del: append.simps)

section \<open>The workflow\<close>

text \<open>
  Claim C6: a start request whose path entry is empty after trimming is rejected inside
  \<open>on_start\<close>: no thread is started, the trace of collaborator calls is empty, and the
  application is unchanged but for the toast that reports the failure.
\<close>

theorem empty_path_rejected:
  assumes "strip (path_entry self) = []"
  shows "on_start ops now self =
           (self\<lparr>toasts := toasts self @ [''Please select a local path.'']\<rparr>, None) \<and>
         start_transfer ops world now self =
           (self\<lparr>toasts := toasts self @ [''Please select a local path.'']\<rparr>, [])"
  using assms by (simp add: on_start_def start_transfer_def show_toast_def)

theorem empty_path_rejected_witness:
  "strip (path_entry idle_app) = [] \<and>
   on_start x_ops (Fin 7) idle_app =
     (idle_app\<lparr>toasts := [''Please select a local path.'']\<rparr>, None) \<and>
   start_transfer x_ops sample_world (Fin 7) idle_app =
     (idle_app\<lparr>toasts := [''Please select a local path.'']\<rparr>, [])"
proof -
  have h: "strip (path_entry idle_app) = []" by (simp add: idle_app_def strip_def)
  show ?thesis
    using h empty_path_rejected [OF h, of x_ops "Fin 7" sample_world]
    by (simp add: idle_app_def)
qed

text \<open>
  Claim C5, as stated, fails for Push with a missing local path: the path is tested in
  the worker thread, after \<open>check_adb_device\<close> has run \<open>adb get-state\<close>, the failure is
  reported through a queued call of \<open>on_transfer_finished\<close>, and \<open>on_start\<close> has by then
  reset the baseline and the speed text.
\<close>

theorem missing_push_path_after_device_check:
  "\<not> path_exists (local_fs sample_world) ''/nope'' \<and>
   snd (start_transfer x_ops sample_world (Fin 7) push_app) =
     [Run_adb_get_state, Path_exists ''/nope'',
      Idle_transfer_finished False ''Local path does not exist''] \<and>
   external_process Run_adb_get_state \<and>
   last_time (fst (start_transfer x_ops sample_world (Fin 7) push_app)) = Fin 7 \<and>
   last_time push_app = Fin 0 \<and>
   speed_label (fst (start_transfer x_ops sample_world (Fin 7) push_app))
     = ''Calculating...'' \<and>
   speed_label push_app = []"
  by (simp add: start_transfer_def on_start_def prepare_and_run_def push_app_def idle_app_def
      sample_world_def strip_lines path_exists_def resolve_def on_transfer_finished_def
      show_toast_def Let_def)

text \<open>
  Claim C5, amended: an empty local path is detected in \<open>on_start\<close>, before any external
  process is launched, and reported at once with no change of state but the toast. For
  Push, the worker thread first runs the device check; when it fails the local path is
  not examined. When it passes, a local path that does not exist is detected before the
  remote \<open>mkdir\<close>, the size computation and the launch of the pipeline, none of which
  then runs; it is reported by a queued completion call with the text
  \<open>Local path does not exist\<close>, and the state left is the one \<open>on_start\<close> set up, with the
  baseline reset to (0, now) and the speed text \<open>Calculating...\<close>, after the completion
  call has re-enabled the start button, hidden and zeroed the progress bar, hidden the
  speed text, set the status \<open>Transfer Failed\<close> and shown the toast. When the path
  exists, the existence check precedes the size computation.
\<close>

theorem validation_errors:
  "(strip (path_entry self) = [] \<longrightarrow>
      start_transfer ops world now self
        = (show_toast ''Please select a local path.'' self, [])) \<and>
   (strip (path_entry self) \<noteq> [] \<and> \<not> mode_pull self \<and> \<not> adb_device_present world \<longrightarrow>
      snd (start_transfer ops world now self) =
        [Run_adb_get_state, Idle_set_status ''Device Error'',
         Idle_transfer_finished False ''ADB Device not connected or unauthorized'']) \<and>
   (strip (path_entry self) \<noteq> [] \<and> \<not> mode_pull self \<and> adb_device_present world \<and>
      \<not> path_exists (local_fs world) (strip (path_entry self)) \<longrightarrow>
      start_transfer ops world now self =
        (self\<lparr>start_btn_sensitive := True, status_label := ''Transfer Failed'',
              progress_opacity := 0, progress_fraction := lit ops 0, speed_opacity := 0,
              speed_label := ''Calculating...'', last_fraction := lit ops 0,
              last_time := now,
              toasts := toasts self @ [''Error: Local path does not exist'']\<rparr>,
         [Run_adb_get_state, Path_exists (strip (path_entry self)),
          Idle_transfer_finished False ''Local path does not exist''])) \<and>
   (strip (path_entry self) \<noteq> [] \<and> \<not> mode_pull self \<and> adb_device_present world \<and>
      path_exists (local_fs world) (strip (path_entry self)) \<longrightarrow>
      snd (start_transfer ops world now self) =
        [Run_adb_get_state, Path_exists (strip (path_entry self)), Run_adb_mkdir DEVICE_DIR,
         Walk (strip (path_entry self)), Idle_set_status ''Transferring...'',
         Run_pipeline (pipeline_cmd False (strip (path_entry self))
           (get_local_size (local_fs world) (strip (path_entry self))))])"
  by (simp add: on_start_def start_transfer_def prepare_and_run_def Let_def
      on_transfer_finished_def show_toast_def)

theorem validation_errors_witness:
  "strip (path_entry idle_app) = [] \<and>
   start_transfer x_ops sample_world (Fin 7) idle_app =
     (show_toast ''Please select a local path.'' idle_app, []) \<and>
   strip (path_entry push_app) \<noteq> [] \<and> \<not> mode_pull push_app \<and>
   adb_device_present sample_world \<and>
   \<not> path_exists (local_fs sample_world) (strip (path_entry push_app)) \<and>
   start_transfer x_ops sample_world (Fin 7) push_app =
     (push_app\<lparr>start_btn_sensitive := True, status_label := ''Transfer Failed'',
        progress_opacity := 0, progress_fraction := Fin 0, speed_opacity := 0,
        speed_label := ''Calculating...'', last_fraction := Fin 0, last_time := Fin 7,
        toasts := [''Error: Local path does not exist'']\<rparr>,
      [Run_adb_get_state, Path_exists ''/nope'',
       Idle_transfer_finished False ''Local path does not exist'']) \<and>
   \<not> adb_device_present (sample_world\<lparr>adb_device_present := False\<rparr>) \<and>
   snd (start_transfer x_ops (sample_world\<lparr>adb_device_present := False\<rparr>) (Fin 7) push_app) =
     [Run_adb_get_state, Idle_set_status ''Device Error'',
      Idle_transfer_finished False ''ADB Device not connected or unauthorized''] \<and>
   strip (path_entry data_push_app) \<noteq> [] \<and> \<not> mode_pull data_push_app \<and>
   path_exists (local_fs sample_world) (strip (path_entry data_push_app)) \<and>
   snd (start_transfer x_ops sample_world (Fin 7) data_push_app) =
     [Run_adb_get_state, Path_exists ''/data'', Run_adb_mkdir DEVICE_DIR,
      Walk ''/data'', Idle_set_status ''Transferring...'',
      Run_pipeline (pipeline_cmd False ''/data'' 15)]"
proof -
  have h1: "strip (path_entry idle_app) = []" by (simp add: idle_app_def strip_def)
  have h2: "strip (path_entry push_app) \<noteq> [] \<and> \<not> mode_pull push_app \<and>
      adb_device_present sample_world \<and>
      \<not> path_exists (local_fs sample_world) (strip (path_entry push_app))"
    by (simp add: push_app_def idle_app_def strip_lines sample_world_def path_exists_def
        resolve_def)
  have h3: "strip (path_entry data_push_app) \<noteq> [] \<and> \<not> mode_pull data_push_app \<and>
      path_exists (local_fs sample_world) (strip (path_entry data_push_app))"
    by (simp add: data_push_app_def push_app_def idle_app_def strip_lines sample_world_def
        path_exists_def resolve_def)
  have size: "get_local_size (local_fs sample_world) ''/data'' = 15"
    by (simp add: get_local_size_def sample_world_def resolve_def sample_entries_def)
  have p2: "strip (path_entry push_app) = ''/nope''"
    by (simp add: push_app_def idle_app_def strip_lines)
  have p3: "strip (path_entry data_push_app) = ''/data''"
    by (simp add: data_push_app_def push_app_def idle_app_def strip_lines)
  have t2: "toasts push_app = []" by (simp add: push_app_def idle_app_def)
  show ?thesis
    using h1 h2 h3
      validation_errors [of idle_app x_ops sample_world "Fin 7"]
      validation_errors [of push_app x_ops sample_world "Fin 7"]
      validation_errors [of push_app x_ops "sample_world\<lparr>adb_device_present := False\<rparr>" "Fin 7"]
      validation_errors [of data_push_app x_ops sample_world "Fin 7"]
    by (simp add: size p2 p3 t2)
qed

section \<open>The pipeline command\<close>

lemma launched_cmd:
  "Run_pipeline c \<in> set (snd (prepare_and_run world is_pull local_path self)) \<Longrightarrow>
   c = pipeline_cmd is_pull local_path
         (total_bytes (fst (prepare_and_run world is_pull local_path self)))"
  by (auto simp add: prepare_and_run_def Let_def split: if_splits)

text \<open>
  Claim C8: the command is a function of the direction, the local path and the total
  size alone: whatever the application state and the outside world, the command the
  worker launches is \<open>pipeline_cmd\<close> of these three. For a fixed direction and path the
  command is one fixed text before and one fixed text after the size hint of the
  metering stage \<open>pv -n -s\<close>, so a change of the total size changes the hint and nothing
  else.
\<close>

theorem pipeline_cmd_size_hint:
  "(\<exists>before after. \<forall>size_bytes.
      pipeline_cmd is_pull local_path size_bytes =
        before @ ''pv -n -s '' @ show_int size_bytes @ '' | '' @ after) \<and>
   (\<forall>c. Run_pipeline c \<in> set (snd (prepare_and_run world is_pull local_path self)) \<longrightarrow>
      c = pipeline_cmd is_pull local_path
            (total_bytes (fst (prepare_and_run world is_pull local_path self))))"
proof (intro conjI allI impI)
  show "\<exists>before after. \<forall>size_bytes.
      pipeline_cmd is_pull local_path size_bytes =
        before @ ''pv -n -s '' @ show_int size_bytes @ '' | '' @ after"
  proof (cases is_pull)
    case True
    have "\<forall>size_bytes. pipeline_cmd is_pull local_path size_bytes =
        (''adb exec-out '' @ [CHR 0x22] @ ''cd '' @ REMOTE_BASE_DIR @ '' && tar -c -f - ''
           @ REMOTE_TARGET_DIR_NAME @ [CHR 0x22] @ '' | '')
        @ ''pv -n -s '' @ show_int size_bytes @ '' | ''
        @ (''tar -xf - -C '' @ [CHR 0x22] @ local_path @ [CHR 0x22])"
      by (simp add: pipeline_cmd_def True)
    then show ?thesis by blast
  next
    case False
    have "\<forall>size_bytes. pipeline_cmd is_pull local_path size_bytes =
        (''tar -cf - -C '' @ [CHR 0x22] @ local_path @ [CHR 0x22] @ '' . | '')
        @ ''pv -n -s '' @ show_int size_bytes @ '' | ''
        @ (''adb shell '' @ [CHR 0x22] @ ''tar -xf - -C '' @ DEVICE_DIR @ [CHR 0x22])"
      by (simp add: pipeline_cmd_def False)
    then show ?thesis by blast
  qed
next
  fix c
  assume "Run_pipeline c \<in> set (snd (prepare_and_run world is_pull local_path self))"
  then show "c = pipeline_cmd is_pull local_path
      (total_bytes (fst (prepare_and_run world is_pull local_path self)))"
    by (rule launched_cmd)
qed

theorem pipeline_cmd_size_hint_witness:
  "Run_pipeline (pipeline_cmd True ''/home/u/out'' 1000)
     \<in> set (snd (prepare_and_run sample_world True ''/home/u/out'' idle_app)) \<and>
   pipeline_cmd True ''/home/u/out''
     (total_bytes (fst (prepare_and_run sample_world True ''/home/u/out'' idle_app))) =
     ''adb exec-out '' @ [CHR 0x22] @ ''cd /sdcard && tar -c -f - Transfer'' @ [CHR 0x22]
       @ '' | pv -n -s 1000 | tar -xf - -C '' @ [CHR 0x22] @ ''/home/u/out'' @ [CHR 0x22]"
proof -
  have h: "Run_pipeline (pipeline_cmd True ''/home/u/out'' 1000)
      \<in> set (snd (prepare_and_run sample_world True ''/home/u/out'' idle_app))"
    by (simp add: prepare_and_run_def sample_world_def Let_def)
  have t: "total_bytes (fst (prepare_and_run sample_world True ''/home/u/out'' idle_app)) = 1000"
    by (simp add: prepare_and_run_def sample_world_def Let_def)
  have "pipeline_cmd True ''/home/u/out'' 1000 =
      pipeline_cmd True ''/home/u/out''
        (total_bytes (fst (prepare_and_run sample_world True ''/home/u/out'' idle_app)))"
    using h pipeline_cmd_size_hint [of True "''/home/u/out''" sample_world idle_app] by blast
  then show ?thesis
    using h
    by (simp add: t pipeline_cmd_def REMOTE_BASE_DIR_def REMOTE_TARGET_DIR_NAME_def
        show_int_def show_nat.simps digit_char_def)
qed

section \<open>The local size query\<close>

lemma count_files_mono: "total_size \<le> fst (count_files fs total_size)"
proof (induction fs total_size rule: count_files.induct)
  case (3 n fs total_size)
  then show ?case by (simp add: order_trans [of total_size "total_size + int n"])
qed simp_all

lemma count_files_upper: "fst (count_files g t) \<le> t + int (spec_entries_size g)"
proof (induction g t rule: count_files.induct)
  case (3 n fs total_size)
  then show ?case by simp
qed simp_all

lemma walk_loop_mono: "total_size \<le> fst (walk_loop groups total_size)"
proof (induction groups arbitrary: total_size)
  case Nil
  show ?case by simp
next
  case (Cons g groups)
  obtain t exc where c: "count_files g total_size = (t, exc)"
    by (cases "count_files g total_size")
  have le: "total_size \<le> t" using count_files_mono [of total_size g] by (simp add: c)
  show ?case
  proof (cases exc)
    case None
    then show ?thesis using Cons.IH [of t] le by (simp add: c)
  next
    case (Some e)
    then show ?thesis using le by (simp add: c)
  qed
qed

lemma walk_loop_upper:
  "fst (walk_loop groups t) \<le> t + int (sum_list (map spec_entries_size groups))"
proof (induction groups arbitrary: t)
  case Nil
  show ?case by simp
next
  case (Cons g groups)
  obtain t' exc where c: "count_files g t = (t', exc)" by (cases "count_files g t")
  have le: "t' \<le> t + int (spec_entries_size g)"
    using count_files_upper [of g t] by (simp add: c)
  show ?case
  proof (cases exc)
    case None
    then show ?thesis using Cons.IH [of t'] le by (simp add: c)
  next
    case (Some e)
    then show ?thesis using le by (simp add: c)
  qed
qed

lemma count_files_ok:
  "stats_ok es \<Longrightarrow>
   count_files (filter nondir es) t = (t + int (spec_entries_size (filter nondir es)), None)"
proof (induction es arbitrary: t)
  case Nil
  show ?case by simp
next
  case (Cons e es)
  then show ?case
  proof (cases e)
    case (File sz)
    with Cons show ?thesis by (cases sz) simp_all
  qed simp_all
qed

lemma spec_entries_size_split:
  "spec_entries_size es =
     spec_entries_size (filter nondir es) + spec_entries_size (filter (\<lambda>e. \<not> nondir e) es)"
  by (induction es) simp_all

lemma walk_sizes:
  "sum_list (map spec_entries_size (walk n)) = (if nondir n then 0 else spec_tree_size n)"
  "sum_list (map spec_entries_size (walk_dirs es)) =
     spec_entries_size (filter (\<lambda>e. \<not> nondir e) es)"
proof (induction n and es rule: walk_walk_dirs.induct)
  case (1 entries)
  then show ?case by (simp add: spec_entries_size_split [of entries])
next
  case (6 e es)
  then show ?case by (cases "nondir e") simp_all
qed simp_all

lemma walk_loop_ok:
  "(stat_ok n \<longrightarrow> (\<forall>t rest. walk_loop (walk n @ rest) t =
      walk_loop rest (t + int (if nondir n then 0 else spec_tree_size n))))"
  "(stats_ok es \<longrightarrow> (\<forall>t rest. walk_loop (walk_dirs es @ rest) t =
      walk_loop rest (t + int (spec_entries_size (filter (\<lambda>e. \<not> nondir e) es)))))"
proof (induction n and es rule: walk_walk_dirs.induct)
  case (1 entries)
  show ?case
  proof (intro impI allI)
    fix t rest
    assume ok: "stat_ok (Dir entries)"
    then have oks: "stats_ok entries" by simp
    have "walk_loop (walk (Dir entries) @ rest) t =
          walk_loop (walk_dirs entries @ rest)
            (t + int (spec_entries_size (filter nondir entries)))"
      by (simp add: count_files_ok [OF oks])
    also have "\<dots> = walk_loop rest (t + int (spec_entries_size (filter nondir entries))
                 + int (spec_entries_size (filter (\<lambda>e. \<not> nondir e) entries)))"
      using 1 oks by simp
    also have "\<dots> = walk_loop rest (t + int (spec_entries_size entries))"
      by (simp add: spec_entries_size_split [of entries] add.assoc)
    finally show "walk_loop (walk (Dir entries) @ rest) t =
        walk_loop rest
          (t + int (if nondir (Dir entries) then 0 else spec_tree_size (Dir entries)))"
      by simp
  qed
next
  case (6 e es)
  then show ?case by (cases "nondir e") (simp_all add: add.assoc)
qed simp_all

lemma get_local_size_nonneg: "0 \<le> get_local_size fs path"
proof -
  let ?groups = "case resolve fs path of None \<Rightarrow> [] | Some tree \<Rightarrow> walk tree"
  have "0 \<le> fst (walk_loop ?groups 0)" by (rule walk_loop_mono)
  then show ?thesis by (cases "walk_loop ?groups 0") (simp add: get_local_size_def)
qed

lemma get_local_size_upper:
  assumes "resolve fs path = Some (Dir entries)"
  shows "get_local_size fs path \<le> int (spec_entries_size entries)"
proof -
  have "fst (walk_loop (walk (Dir entries)) 0)
          \<le> 0 + int (sum_list (map spec_entries_size (walk (Dir entries))))"
    by (rule walk_loop_upper)
  also have "sum_list (map spec_entries_size (walk (Dir entries))) = spec_entries_size entries"
    using walk_sizes(1) [of "Dir entries"] by simp
  finally show ?thesis
    by (cases "walk_loop (walk (Dir entries)) 0")
      (simp add: get_local_size_def assms del: walk.simps)
qed

lemma get_local_size_dir:
  assumes "resolve fs path = Some (Dir entries)" and "stats_ok entries"
  shows "get_local_size fs path = int (spec_entries_size entries)"
proof -
  have ok: "stat_ok (Dir entries)" using assms(2) by simp
  have "walk_loop (walk (Dir entries) @ []) 0 =
        walk_loop [] (0 + int (if nondir (Dir entries) then 0 else spec_tree_size (Dir entries)))"
    using walk_loop_ok(1) [of "Dir entries"] ok by blast
  then have "walk_loop (walk (Dir entries)) 0 = (int (spec_entries_size entries), None)"
    by (simp del: walk.simps)
  then show ?thesis by (simp add: get_local_size_def assms(1) del: walk.simps)
qed

text \<open>
  Claim C9: \<open>get_local_size\<close> returns an integer on every input (it catches what the walk
  raises), never a negative one; it returns 0 when the path is empty, does not resolve
  or cannot be listed; on a directory it returns at most the size of the regular files
  in the tree below it, symbolic links counting for nothing, and exactly that size when
  every file can be examined.
\<close>

theorem get_local_size_total:
  "0 \<le> get_local_size fs path \<and>
   (path = [] \<or> fs path = None \<or> fs path = Some Unreadable \<longrightarrow> get_local_size fs path = 0) \<and>
   (\<forall>entries. resolve fs path = Some (Dir entries) \<longrightarrow>
      get_local_size fs path \<le> int (spec_entries_size entries) \<and>
      (stats_ok entries \<longrightarrow> get_local_size fs path = int (spec_entries_size entries)))"
proof (intro conjI allI impI)
  show "0 \<le> get_local_size fs path" by (rule get_local_size_nonneg)
next
  assume "path = [] \<or> fs path = None \<or> fs path = Some Unreadable"
  then show "get_local_size fs path = 0"
    by (auto simp add: get_local_size_def resolve_def)
next
  fix entries
  assume "resolve fs path = Some (Dir entries)"
  then show "get_local_size fs path \<le> int (spec_entries_size entries)"
    by (rule get_local_size_upper)
next
  fix entries
  assume "resolve fs path = Some (Dir entries)" and "stats_ok entries"
  then show "get_local_size fs path = int (spec_entries_size entries)"
    by (rule get_local_size_dir)
qed

theorem get_local_size_total_witness:
  "resolve (local_fs sample_world) ''/data'' = Some (Dir sample_entries) \<and>
   stats_ok sample_entries \<and>
   get_local_size (local_fs sample_world) ''/data'' = 15 \<and>
   local_fs sample_world ''/missing'' = None \<and>
   get_local_size (local_fs sample_world) ''/missing'' = 0 \<and>
   get_local_size (local_fs sample_world) [] = 0"
proof -
  have h1: "resolve (local_fs sample_world) ''/data'' = Some (Dir sample_entries)"
    by (simp add: resolve_def sample_world_def)
  have h2: "stats_ok sample_entries" by (simp add: sample_entries_def)
  have h3: "local_fs sample_world ''/missing'' = None" by (simp add: sample_world_def)
  have sz: "spec_entries_size sample_entries = 15" by (simp add: sample_entries_def)
  show ?thesis
    using h1 h2 h3
      get_local_size_total [of "local_fs sample_world" "''/data''"]
      get_local_size_total [of "local_fs sample_world" "''/missing''"]
      get_local_size_total [of "local_fs sample_world" "[]"]
    by (simp add: sz)
qed

end
